theory Spec2Isabelle
  imports Main
begin

section \<open>Data model of dpxdt/server/auth.py\<close>

text \<open>
  Exceptions the module can raise. \<open>abort(code)\<close> of Flask never returns: it raises an
  HTTP exception carrying the status code, so a statement \<open>return abort(403), None\<close>
  leaves the function by that exception before any tuple is built. The other
  constructors are the Python run-time errors the module's own statements can raise:
  reading an unbound name, reading an attribute of \<open>None\<close>, indexing a dictionary at a
  missing key.
\<close>

datatype error =
    HTTPException nat
  | NameError string
  | AttributeError string
  | KeyError string
  | FetchError

text \<open>
  The rows of the three tables the module reads through \<open>models\<close>. Only the columns
  that auth.py reads or writes are kept. \<open>id\<close> is a HOL constant, so the primary keys
  are named \<open>user_id\<close>, \<open>build_id\<close> and \<open>key_id\<close>; the foreign key \<open>ApiKey.build_id\<close>
  (nullable) is \<open>key_build_id\<close>.
\<close>

record user =
  user_id :: string
  email_address :: string

record build =
  build_id :: int
  public :: bool
  owners :: "user list"

record api_key =
  key_id :: string
  secret :: string
  active :: bool
  key_build_id :: "int option"
  superuser :: bool

text \<open>
  The database: each table is the list of its rows, and \<open>Model.query.get(pk)\<close> answers
  the first row with that primary key, or \<open>None\<close>.
\<close>

record store =
  users :: "user list"
  builds :: "build list"
  api_keys :: "api_key list"

definition user_query_get :: "store \<Rightarrow> string \<Rightarrow> user option" where
  "user_query_get st i = find (\<lambda>u. user_id u = i) (users st)"

definition build_query_get :: "store \<Rightarrow> int \<Rightarrow> build option" where
  "build_query_get st i = find (\<lambda>b. build_id b = i) (builds st)"

definition api_key_query_get :: "store \<Rightarrow> string \<Rightarrow> api_key option" where
  "api_key_query_get st i = find (\<lambda>k. key_id k = i) (api_keys st)"

text \<open>
  \<open>current_user\<close> of Flask-Login: the anonymous user, or the user row the session
  resolved to. \<open>is_authenticated()\<close> is false exactly for the anonymous user, and
  \<open>get_id()\<close> answers the row's id.
\<close>

datatype session_user = AnonymousUser | LoggedIn user

fun is_authenticated :: "session_user \<Rightarrow> bool" where
  "is_authenticated AnonymousUser = False"
| "is_authenticated (LoggedIn u) = True"

fun get_id :: "session_user \<Rightarrow> string option" where
  "get_id AnonymousUser = None"
| "get_id (LoggedIn u) = Some (user_id u)"

text \<open>
  The Flask request, as far as the module reads it. \<open>args_get\<close> is
  \<open>request.args.get(name)\<close>; \<open>args_get_int\<close> and \<open>form_get_int\<close> are
  \<open>request.args.get(name, type=int)\<close> and \<open>request.form.get(name, type=int)\<close>, which
  answer \<open>None\<close> when the parameter is missing or does not convert. \<open>authorization\<close>
  is \<open>request.authorization\<close>: \<open>None\<close>, or the username and password of the header.
\<close>

record request =
  req_method :: string
  url :: string
  args_get :: "string \<Rightarrow> string option"
  args_get_int :: "string \<Rightarrow> int option"
  form_get_int :: "string \<Rightarrow> int option"
  authorization :: "(string \<times> string) option"

text \<open>
  The responses the module builds itself. \<open>Redirect\<close> is \<open>redirect(location)\<close>,
  \<open>RedirectManageApiKeys b\<close> is \<open>redirect(url_for('manage_api_keys', build_id=b))\<close>,
  \<open>LoginRedirect next_url\<close> is the redirect to the login view that carries the URL to
  come back to, and \<open>FlaskResponse body status headers\<close> is
  \<open>flask.Response(body, status, headers)\<close> with the headers argument the set literal
  the source passes.
\<close>

datatype response =
    Redirect "string option"
  | RedirectManageApiKeys int
  | LoginRedirect string
  | FlaskResponse string nat "string set"

text \<open>
  What a guard hands back when it does not raise: a response of its own, or the value of
  the wrapped handler, \<open>f(*args, **kwargs)\<close>.
\<close>

datatype 'r reply = Responds response | Invokes 'r

subsection \<open>Python truth values\<close>

text \<open>
  \<open>x or y\<close> is \<open>x\<close> when \<open>x\<close> is true and \<open>y\<close> otherwise; an optional integer is
  true when it is present and not zero.
\<close>

fun truthy :: "int option \<Rightarrow> bool" where
  "truthy None = False"
| "truthy (Some n) = (n \<noteq> 0)"

definition py_or :: "int option \<Rightarrow> int option \<Rightarrow> int option" where
  "py_or x y = (if truthy x then x else y)"

section \<open>The resource access evaluator\<close>

text \<open>
  Modelled from the spec: \<open>login.unauthorized()\<close>. The login manager \<open>login\<close> is created
  and configured in the package's \<open>__init__\<close>, a module other than auth.py.
  Section 4.2 of the specification: when an operation requires a session and none is
  present, the answer is a redirect to the login entry point carrying \<open>next_url\<close>, the
  URL of the current request, not a bare 401.
\<close>

definition login_unauthorized :: "request \<Rightarrow> response" where
  "login_unauthorized req = LoginRedirect (url req)"

text \<open>
  Lines 143 to 145: the build id is read from the query string, then from the form.
\<close>

definition requested_build_id :: "string \<Rightarrow> request \<Rightarrow> int option" where
  "requested_build_id param_name req =
     py_or (args_get_int req param_name) (form_get_int req param_name)"

text \<open>
  Lines 155 to 159: \<open>user_is_owner\<close> starts false and, for an authenticated user, becomes
  \<open>build.owners.filter_by(id=current_user.get_id()).first()\<close>, a row or \<open>None\<close>.
\<close>

definition user_is_owner :: "session_user \<Rightarrow> build \<Rightarrow> bool" where
  "user_is_owner cu b =
     (if is_authenticated cu
      then find (\<lambda>u. Some (user_id u) = get_id cu) (owners b) \<noteq> None
      else False)"

text \<open>
  \<open>can_user_access_build(param_name)\<close>, lines 131 to 174. The result is the tuple
  \<open>(response, build)\<close> the function returns, or the exception it leaves by.
\<close>

definition can_user_access_build ::
  "string \<Rightarrow> request \<Rightarrow> session_user \<Rightarrow> store \<Rightarrow> error + (response option \<times> build option)"
where
  "can_user_access_build param_name req cu st =
     (case requested_build_id param_name req of
        None \<Rightarrow> Inl (HTTPException 400)
      | Some bid \<Rightarrow>
          if bid = 0 then Inl (HTTPException 400)
          else
            (case build_query_get st bid of
               None \<Rightarrow> Inl (HTTPException 404)
             | Some b \<Rightarrow>
                 if \<not> user_is_owner cu b then
                   (if req_method req \<noteq> ''GET'' then Inl (HTTPException 403)
                    else if public b then Inr (None, Some b)
                    else if is_authenticated cu then Inl (HTTPException 403)
                    else Inr (Some (login_unauthorized req), None))
                 else Inr (None, Some b)))"

text \<open>
  \<open>build_access_required\<close>, lines 177 to 206: the wrapper returns the response when there
  is one and calls the handler with the build otherwise.
\<close>

definition build_access_required ::
  "string \<Rightarrow> (build option \<Rightarrow> 'a \<Rightarrow> 'r) \<Rightarrow> 'a \<Rightarrow> request \<Rightarrow> session_user \<Rightarrow> store \<Rightarrow> error + 'r reply"
where
  "build_access_required param_name f a req cu st =
     (case can_user_access_build param_name req cu st of
        Inl e \<Rightarrow> Inl e
      | Inr (Some r, b) \<Rightarrow> Inr (Responds r)
      | Inr (None, b) \<Rightarrow> Inr (Invokes (f b a)))"

section \<open>The API-key guard\<close>

text \<open>
  The names auth.py binds at module level: its imports, its constants and its function
  definitions, in the order of the file. A name a function reads and does not assign is
  looked up here (then among the builtins, which hold none of the names looked up
  below); a name that is not bound raises \<open>NameError\<close>. Every object bound here is
  a module, a function, a proxy of a live object, a non-empty string or the number 60, so
  its truth value is true.
\<close>

definition bound_names :: "string list" where
  "bound_names =
     [''functools'', ''json'', ''logging'', ''urllib'', ''urllib2'',
      ''abort'', ''redirect'', ''render_template'', ''request'', ''url_for'',
      ''current_user'', ''fresh_login_required'', ''login_required'', ''login_user'',
      ''app'', ''db'', ''login'', ''config'', ''forms'', ''models'',
      ''GOOGLE_OAUTH2_AUTH_URL'', ''GOOGLE_OAUTH2_TOKEN_URL'',
      ''GOOGLE_OAUTH2_USERINFO_URL'', ''GOOGLE_OAUTH2_SCOPES'', ''FETCH_TIMEOUT_SECONDS'',
      ''load_user'', ''login_view'', ''login_auth'', ''debug_login'',
      ''superuser_required'', ''can_user_access_build'', ''build_access_required'',
      ''api_key_required'', ''manage_api_keys'', ''revoke_api_key'']"

definition lookup_global :: "string \<Rightarrow> bool option" where
  "lookup_global name = (if name \<in> set bound_names then Some True else None)"

text \<open>
  Lines 220 to 250 of \<open>wrapped\<close>, the statements after the header test: the key is
  looked up by the header's username, then checked for activity and secret, then for
  scope. \<open>auth_header\<close> is the local variable assigned in line 213. The test of line 238
  is true only for a build id that is present, so the \<open>None\<close> branch under it is never
  taken; it is there because \<open>build_query_get\<close> takes an integer.
\<close>

definition wrapped_key_checks ::
  "('a \<Rightarrow> 'r) \<Rightarrow> 'a \<Rightarrow> (string \<times> string) option \<Rightarrow> request \<Rightarrow> store \<Rightarrow> error + 'r reply"
where
  "wrapped_key_checks f a auth_header req st =
     (case auth_header of
        None \<Rightarrow> Inl (AttributeError ''username'')
      | Some (username, password) \<Rightarrow>
          (case api_key_query_get st username of
             None \<Rightarrow> Inl (HTTPException 403)
           | Some k \<Rightarrow>
               if \<not> active k then Inl (HTTPException 403)
               else if secret k \<noteq> password then Inl (HTTPException 403)
               else
                 (let bid = form_get_int req ''build_id'' in
                  if \<not> superuser k then
                    (if truthy bid \<and> key_build_id k = bid then
                       (case bid of
                          None \<Rightarrow> Inl (HTTPException 403)
                        | Some i \<Rightarrow>
                            (case build_query_get st i of
                               None \<Rightarrow> Inl (HTTPException 404)
                             | Some b \<Rightarrow> Inr (Invokes (f a))))
                     else Inl (HTTPException 403))
                  else Inr (Invokes (f a)))))"

text \<open>
  The header value of line 218.
\<close>

definition basic_realm :: string where
  "basic_realm = ''Basic realm='' @ [CHR 0x22] @ ''API key required'' @ [CHR 0x22]"

text \<open>
  \<open>wrapped\<close>, lines 212 to 250, the function \<open>api_key_required(f)\<close> returns. Line 213
  assigns \<open>auth_header\<close>; line 214 tests the name \<open>auth\<close>, and line 216 reads the name
  \<open>flask\<close>.
\<close>

definition wrapped ::
  "('a \<Rightarrow> 'r) \<Rightarrow> 'a \<Rightarrow> request \<Rightarrow> store \<Rightarrow> error + 'r reply"
where
  "wrapped f a req st =
     (let auth_header = authorization req in
      case lookup_global ''auth'' of
        None \<Rightarrow> Inl (NameError ''auth'')
      | Some auth \<Rightarrow>
          if \<not> auth then
            (case lookup_global ''flask'' of
               None \<Rightarrow> Inl (NameError ''flask'')
             | Some _ \<Rightarrow>
                 Inr (Responds (FlaskResponse ''API key required'' 401
                        {''WWW-Authenticate'', basic_realm})))
          else wrapped_key_checks f a auth_header req st)"

definition api_key_required ::
  "('a \<Rightarrow> 'r) \<Rightarrow> 'a \<Rightarrow> request \<Rightarrow> store \<Rightarrow> error + 'r reply"
where
  "api_key_required f = wrapped f"

section \<open>Key revocation\<close>

text \<open>
  \<open>forms.RevokeApiKeyForm()\<close> as the handler reads it: whether
  \<open>validate_on_submit()\<close> holds, and \<open>form.id.data\<close>.
\<close>

record revoke_form =
  validate_on_submit :: bool
  id_data :: string

text \<open>
  \<open>api_key.active = False\<close> followed by the commit: the row with the key's primary key
  is updated.
\<close>

definition deactivate :: "api_key \<Rightarrow> store \<Rightarrow> store" where
  "deactivate k st =
     st\<lparr>api_keys :=
          map (\<lambda>r. if key_id r = key_id k then k\<lparr>active := False\<rparr> else r) (api_keys st)\<rparr>"

text \<open>
  \<open>revoke_api_key(build)\<close>, lines 299 to 313, the handler under its two decorators. Line
  304 reads \<open>api_key.build_id\<close> of whatever the lookup of line 303 answered.
\<close>

definition revoke_api_key ::
  "build \<Rightarrow> revoke_form \<Rightarrow> store \<Rightarrow> error + (response \<times> store)"
where
  "revoke_api_key b form st =
     (if validate_on_submit form then
        (case api_key_query_get st (id_data form) of
           None \<Rightarrow> Inl (AttributeError ''build_id'')
         | Some k \<Rightarrow>
             if key_build_id k \<noteq> Some (build_id b) then Inl (HTTPException 403)
             else Inr (RedirectManageApiKeys (build_id b), deactivate k st))
      else Inr (RedirectManageApiKeys (build_id b), st))"

section \<open>The provider callback\<close>

text \<open>
  \<open>login_auth()\<close>, lines 69 to 108. The identity provider is outside the program: each of
  the two exchanges (open the URL, read the body, parse it as JSON) is a function from
  what the request carries to the parsed dictionary, or to the error the exchange
  raised. \<open>GOOGLE_OAUTH2\<close> is the constant \<open>models.User.GOOGLE_OAUTH2\<close>, defined in a
  module other than auth.py, hence a parameter. The result is the
  response, the database after the commit, and the user \<open>login_user\<close> put in the session.
\<close>

type_synonym json_dict = "string \<Rightarrow> string option"

definition login_auth ::
  "string \<Rightarrow> (string option \<Rightarrow> error + json_dict) \<Rightarrow> (string \<Rightarrow> error + json_dict)
     \<Rightarrow> request \<Rightarrow> store \<Rightarrow> error + (response \<times> store \<times> session_user)"
where
  "login_auth GOOGLE_OAUTH2 fetch_token fetch_userinfo req st =
     (case fetch_token (args_get req ''code'') of
        Inl e \<Rightarrow> Inl e
      | Inr token_dict \<Rightarrow>
          (case token_dict ''access_token'' of
             None \<Rightarrow> Inl (KeyError ''access_token'')
           | Some access_token \<Rightarrow>
               (case fetch_userinfo access_token of
                  Inl e \<Rightarrow> Inl e
                | Inr result_dict \<Rightarrow>
                    (case result_dict ''id'' of
                       None \<Rightarrow> Inl (KeyError ''id'')
                     | Some ident \<Rightarrow>
                         (let uid = GOOGLE_OAUTH2 @ '':'' @ ident in
                          case user_query_get st uid of
                            Some u \<Rightarrow> Inr (Redirect (args_get req ''state''), st, LoggedIn u)
                          | None \<Rightarrow>
                              (case result_dict ''email'' of
                                 None \<Rightarrow> Inl (KeyError ''email'')
                               | Some email \<Rightarrow>
                                   (let u = \<lparr>user_id = uid, email_address = email\<rparr> in
                                    Inr (Redirect (args_get req ''state''),
                                         st\<lparr>users := users st @ [u]\<rparr>,
                                         LoggedIn u))))))))"

section \<open>Scenario data\<close>

text \<open>
  The scenarios of section 8 of the specification: a private build 5 owned by \<open>u1\<close>, a
  second user \<open>u2\<close> who owns nothing, the key \<open>k1\<close> scoped to build 5; next to them a
  public build 6 and a key \<open>k0\<close> with no build id.
\<close>

definition u1 :: user where
  "u1 = \<lparr>user_id = ''google_oauth2:1'', email_address = ''u1@example.com''\<rparr>"

definition u2 :: user where
  "u2 = \<lparr>user_id = ''google_oauth2:2'', email_address = ''u2@example.com''\<rparr>"

definition build5 :: build where
  "build5 = \<lparr>build_id = 5, public = False, owners = [u1]\<rparr>"

definition build6 :: build where
  "build6 = \<lparr>build_id = 6, public = True, owners = [u1]\<rparr>"

definition k1 :: api_key where
  "k1 = \<lparr>key_id = ''k1'', secret = ''s1'', active = True, key_build_id = Some 5,
          superuser = False\<rparr>"

definition k0 :: api_key where
  "k0 = \<lparr>key_id = ''k0'', secret = ''s0'', active = True, key_build_id = None,
          superuser = False\<rparr>"

definition store0 :: store where
  "store0 = \<lparr>users = [u1, u2], builds = [build5, build6], api_keys = [k1, k0]\<rparr>"

definition browser_request :: "string \<Rightarrow> int \<Rightarrow> request" where
  "browser_request m i =
     \<lparr>req_method = m, url = ''/build'', args_get = (\<lambda>name. None),
      args_get_int = (\<lambda>name. if name = ''id'' then Some i else None),
      form_get_int = (\<lambda>name. None), authorization = None\<rparr>"

definition api_request :: "(string \<times> string) option \<Rightarrow> int option \<Rightarrow> request" where
  "api_request cred i =
     \<lparr>req_method = ''POST'', url = ''/api/report'', args_get = (\<lambda>name. None),
      args_get_int = (\<lambda>name. None),
      form_get_int = (\<lambda>name. if name = ''build_id'' then i else None),
      authorization = cred\<rparr>"

definition example_handler :: "unit \<Rightarrow> string" where
  "example_handler x = ''handled''"

definition revoke_k1 :: revoke_form where
  "revoke_k1 = \<lparr>validate_on_submit = True, id_data = ''k1''\<rparr>"

definition revoke_unknown :: revoke_form where
  "revoke_unknown = \<lparr>validate_on_submit = True, id_data = ''nokey''\<rparr>"

definition token_dict :: json_dict where
  "token_dict = (\<lambda>name. if name = ''access_token'' then Some ''t0'' else None)"

definition userinfo_dict :: "string \<Rightarrow> json_dict" where
  "userinfo_dict email =
     (\<lambda>name. if name = ''id'' then Some ''3''
              else if name = ''email'' then Some email else None)"

definition token_reply :: "string option \<Rightarrow> error + json_dict" where
  "token_reply code = Inr token_dict"

definition userinfo_reply :: "string \<Rightarrow> string \<Rightarrow> error + json_dict" where
  "userinfo_reply email access_token = Inr (userinfo_dict email)"

section \<open>Auxiliary facts\<close>

lemma find_Some_holds: "find P xs = Some x \<Longrightarrow> P x"
  by (induction xs) (auto split: if_splits)

lemma find_append_new: "find P xs = None \<Longrightarrow> P x \<Longrightarrow> find P (xs @ [x]) = Some x"
  by (induction xs) (auto split: if_splits)

lemma filter_none_of_find: "find P xs = None \<Longrightarrow> filter P xs = []"
  by (induction xs) (auto split: if_splits)

lemma filter_some_of_find: "find P xs = Some x \<Longrightarrow> 1 \<le> length (filter P xs)"
  by (induction xs) (auto split: if_splits)

lemma find_map_same_key:
  assumes "\<And>x. P (g x) = P x"
  shows "find P (map g xs) = map_option g (find P xs)"
  by (induction xs) (simp_all add: assms)

text \<open>
  \<open>user_is_owner\<close> holds exactly for a logged-in user whose id is the id of one of the
  build's owners.
\<close>

lemma user_is_owner_iff:
  "user_is_owner cu b \<longleftrightarrow> (\<exists>u. cu = LoggedIn u \<and> user_id u \<in> user_id ` set (owners b))"
proof (cases cu)
  case AnonymousUser
  then show ?thesis by (simp add: user_is_owner_def)
next
  case (LoggedIn v)
  have "(\<exists>x. x \<in> set (owners b) \<and> user_id x = user_id v)
          \<longleftrightarrow> user_id v \<in> user_id ` set (owners b)"
    unfolding image_iff by metis
  with LoggedIn show ?thesis by (simp add: user_is_owner_def find_None_iff)
qed

text \<open>
  Line 214 reads a name the module never binds, so \<open>wrapped\<close> leaves by \<open>NameError\<close>
  on every call, whatever the request and the database.
\<close>

lemma wrapped_raises_NameError: "wrapped f a req st = Inl (NameError ''auth'')"
  by (simp add: wrapped_def lookup_global_def bound_names_def)

text \<open>
  What lines 220 to 250 do, taken alone: the scope of a key with valid credentials, the
  bypass for superuser keys, and the refusal of an inactive key whatever the password.
\<close>

lemma wrapped_key_checks_scope:
  assumes "api_key_query_get st username = Some k" and "active k" and "secret k = password"
    and "\<not> superuser k"
    and "form_get_int req ''build_id'' = Some i" and "i \<noteq> 0"
  shows "wrapped_key_checks f a (Some (username, password)) req st =
           (if key_build_id k = Some i
            then (if build_query_get st i = None then Inl (HTTPException 404)
                  else Inr (Invokes (f a)))
            else Inl (HTTPException 403))"
  using assms by (auto simp: wrapped_key_checks_def split: option.splits)

lemma wrapped_key_checks_superuser:
  assumes "api_key_query_get st username = Some k" and "active k" and "secret k = password"
    and "superuser k"
  shows "wrapped_key_checks f a (Some (username, password)) req st = Inr (Invokes (f a))"
  using assms by (simp add: wrapped_key_checks_def)

lemma wrapped_key_checks_inactive:
  assumes "api_key_query_get st username = Some k" and "\<not> active k"
  shows "wrapped_key_checks f a (Some (username, password)) req st = Inl (HTTPException 403)"
  using assms by (simp add: wrapped_key_checks_def)

text \<open>
  Revocation: the row a lookup answers after \<open>deactivate\<close>, the key a successful
  revocation names is inactive afterwards, and neither a revocation nor a login makes an
  inactive key active again.
\<close>

lemma api_key_query_get_deactivate:
  "api_key_query_get (deactivate k st) i =
     map_option (\<lambda>r. if key_id r = key_id k then k\<lparr>active := False\<rparr> else r)
       (api_key_query_get st i)"
  unfolding api_key_query_get_def deactivate_def
  by (simp add: find_map_same_key)

lemma revoke_api_key_deactivates:
  assumes "validate_on_submit form" and "revoke_api_key b form st = Inr (r, st')"
  shows "\<exists>k'. api_key_query_get st' (id_data form) = Some k' \<and> \<not> active k'"
proof -
  from assms obtain k where k: "api_key_query_get st (id_data form) = Some k"
    and st': "st' = deactivate k st"
    by (auto simp: revoke_api_key_def split: option.splits if_splits)
  have "key_id k = id_data form"
    using k find_Some_holds [of "\<lambda>r. key_id r = id_data form" "api_keys st" k]
    by (simp add: api_key_query_get_def)
  then show ?thesis
    using k st' by (simp add: api_key_query_get_deactivate)
qed

lemma revoke_api_key_keeps_inactive:
  assumes "revoke_api_key b form st = Inr (r, st')"
    and "api_key_query_get st i = Some k" and "\<not> active k"
  shows "\<exists>k'. api_key_query_get st' i = Some k' \<and> \<not> active k'"
proof -
  from assms(1) consider "st' = st" | k0 where "st' = deactivate k0 st"
    by (auto simp: revoke_api_key_def split: option.splits if_splits)
  then show ?thesis
  proof cases
    case 1
    with assms(2,3) show ?thesis by simp
  next
    case 2
    with assms(2,3) show ?thesis by (simp add: api_key_query_get_deactivate)
  qed
qed

lemma login_auth_keeps_api_keys:
  assumes "login_auth G ft fu req st = Inr (r, st', cu)"
  shows "api_keys st' = api_keys st"
  using assms
  by (auto simp: login_auth_def Let_def split: sum.splits option.splits)

section \<open>The decision table of the resource access evaluator\<close>

text \<open>
  In the four statements below the request names the build \<open>b\<close>: the id read from the
  parameter is present and not zero (line 146 treats zero as missing), and the lookup of
  line 150 answers \<open>b\<close>.
\<close>

text \<open>
  C1: if the session user is authenticated and the user's id is the id of one of the
  build's owners, \<open>can_user_access_build\<close> returns \<open>(None, build)\<close>: the resolved build
  and no error response, whatever the HTTP method and whatever the public flag. Being an
  element of the owners is a special case of the hypothesis on the ids.
\<close>

theorem owner_always_allowed:
  assumes "requested_build_id param_name req = Some bid" and "bid \<noteq> 0"
    and "build_query_get st bid = Some b"
    and "user_id u \<in> user_id ` set (owners b)"
  shows "can_user_access_build param_name req (LoggedIn u) st = Inr (None, Some b)"
  using assms by (simp add: can_user_access_build_def user_is_owner_iff)

theorem owner_always_allowed_witness:
  "can_user_access_build ''id'' (browser_request ''POST'' 5) (LoggedIn u1) store0
     = Inr (None, Some build5)"
  by (rule owner_always_allowed [where bid = 5])
     (simp_all add: requested_build_id_def py_or_def browser_request_def build_query_get_def
        store0_def build5_def build6_def u1_def)

text \<open>
  C2: for a caller who is not an owner of the requested build, the anonymous caller
  included, and a public build, \<open>can_user_access_build\<close> returns the build on \<open>GET\<close> and
  aborts with 403 on every other method: the method is tested before the public flag.
\<close>

theorem public_build_non_owner:
  assumes "requested_build_id param_name req = Some bid" and "bid \<noteq> 0"
    and "build_query_get st bid = Some b"
    and "\<not> user_is_owner cu b"
    and "public b"
  shows "can_user_access_build param_name req cu st =
           (if req_method req = ''GET'' then Inr (None, Some b) else Inl (HTTPException 403))"
  using assms by (simp add: can_user_access_build_def)

theorem public_build_non_owner_witness:
  "can_user_access_build ''id'' (browser_request ''GET'' 6) AnonymousUser store0
     = Inr (None, Some build6)
   \<and> can_user_access_build ''id'' (browser_request ''POST'' 6) AnonymousUser store0
     = Inl (HTTPException 403)
   \<and> can_user_access_build ''id'' (browser_request ''PUT'' 6) (LoggedIn u2) store0
     = Inl (HTTPException 403)"
proof -
  have resolved: "requested_build_id ''id'' (browser_request m 6) = Some 6"
    "build_query_get store0 6 = Some build6" "public build6" for m
    by (simp_all add: requested_build_id_def py_or_def browser_request_def
          build_query_get_def store0_def build5_def build6_def)
  have anonymous: "\<not> user_is_owner AnonymousUser build6"
    by (simp add: user_is_owner_def)
  have other: "\<not> user_is_owner (LoggedIn u2) build6"
    by (simp add: user_is_owner_def build6_def u1_def u2_def)
  show ?thesis
    using public_build_non_owner [OF resolved(1) _ resolved(2) anonymous resolved(3), of "''GET''"]
      public_build_non_owner [OF resolved(1) _ resolved(2) anonymous resolved(3), of "''POST''"]
      public_build_non_owner [OF resolved(1) _ resolved(2) other resolved(3), of "''PUT''"]
    by (simp add: browser_request_def)
qed

text \<open>
  C3: for an anonymous caller issuing a \<open>GET\<close> request for an existing private build,
  \<open>can_user_access_build\<close> returns \<open>(login.unauthorized(), None)\<close>, and that response is
  the login redirect whose \<open>next_url\<close> is the URL of the request; it is neither a 401
  nor a 403.
\<close>

theorem anonymous_private_get_login:
  assumes "requested_build_id param_name req = Some bid" and "bid \<noteq> 0"
    and "build_query_get st bid = Some b"
    and "\<not> public b"
    and "req_method req = ''GET''"
  shows "can_user_access_build param_name req AnonymousUser st
           = Inr (Some (login_unauthorized req), None)
         \<and> login_unauthorized req = LoginRedirect (url req)"
  using assms by (simp add: can_user_access_build_def user_is_owner_iff login_unauthorized_def)

theorem anonymous_private_get_login_witness:
  "can_user_access_build ''id'' (browser_request ''GET'' 5) AnonymousUser store0
     = Inr (Some (LoginRedirect ''/build''), None)"
  using anonymous_private_get_login
          [of "''id''" "browser_request ''GET'' 5" 5 store0 build5]
  by (simp add: requested_build_id_def py_or_def browser_request_def build_query_get_def
        store0_def build5_def build6_def)

text \<open>
  C4: for an authenticated session user who is not an owner of an existing private
  build, \<open>can_user_access_build\<close> aborts with 403 on every method, \<open>GET\<close> included; it
  never returns the login redirect.
\<close>

theorem non_owner_private_forbidden:
  assumes "requested_build_id param_name req = Some bid" and "bid \<noteq> 0"
    and "build_query_get st bid = Some b"
    and "\<not> public b"
    and "user_id u \<notin> user_id ` set (owners b)"
  shows "can_user_access_build param_name req (LoggedIn u) st = Inl (HTTPException 403)"
  using assms by (simp add: can_user_access_build_def user_is_owner_iff)

theorem non_owner_private_forbidden_witness:
  "can_user_access_build ''id'' (browser_request ''GET'' 5) (LoggedIn u2) store0
     = Inl (HTTPException 403)
   \<and> can_user_access_build ''id'' (browser_request ''POST'' 5) (LoggedIn u2) store0
     = Inl (HTTPException 403)"
proof -
  have resolved: "requested_build_id ''id'' (browser_request m 5) = Some 5"
    "build_query_get store0 5 = Some build5" "\<not> public build5" for m
    by (simp_all add: requested_build_id_def py_or_def browser_request_def
          build_query_get_def store0_def build5_def build6_def)
  have other: "user_id u2 \<notin> user_id ` set (owners build5)"
    by (simp add: build5_def u1_def u2_def)
  show ?thesis
    using non_owner_private_forbidden [OF resolved(1) _ resolved(2) resolved(3) other, of "''GET''"]
      non_owner_private_forbidden [OF resolved(1) _ resolved(2) resolved(3) other, of "''POST''"]
    by simp
qed

section \<open>The API-key guard as shipped\<close>

text \<open>
  C5: a request to a guarded handler that carries no authorization header should get a
  401 response with a \<open>WWW-Authenticate\<close> challenge, the handler not being invoked.
  The guard as written does not answer 401: line 214 tests the unbound name \<open>auth\<close>
  where \<open>auth_header\<close> was assigned, and the call leaves by \<open>NameError\<close>.
\<close>

theorem api_key_required_no_header:
  "authorization (api_request None (Some 5)) = None
   \<and> api_key_required example_handler () (api_request None (Some 5)) store0
       = Inl (NameError ''auth'')"
  by (simp add: api_key_required_def wrapped_raises_NameError api_request_def)

text \<open>
  C6: the scope of a non-superuser key with valid credentials. With the key \<open>k1\<close> of
  build 5, its secret, and a request for the existing build 5, lines 220 to 250 invoke
  the handler, but the guard never reaches them: it leaves by the \<open>NameError\<close> of line
  214.
\<close>

theorem api_key_required_matching_build:
  "wrapped_key_checks example_handler () (Some (''k1'', ''s1''))
       (api_request (Some (''k1'', ''s1'')) (Some 5)) store0
     = Inr (Invokes (example_handler ()))
   \<and> api_key_required example_handler () (api_request (Some (''k1'', ''s1'')) (Some 5)) store0
     = Inl (NameError ''auth'')"
  by (simp add: api_key_required_def wrapped_raises_NameError wrapped_key_checks_def
        api_request_def api_key_query_get_def build_query_get_def store0_def k1_def k0_def
        build5_def build6_def)

text \<open>
  C7, as stated, fails: the key \<open>k0\<close> has valid credentials and no build id, it is not a
  superuser key, and a request for build 5 under it is not admitted. The scope check
  aborts with 403, and the guard does not invoke the handler.
\<close>

theorem null_build_id_key_counterexample:
  "api_key_query_get store0 ''k0'' = Some k0 \<and> active k0 \<and> secret k0 = ''s0''
   \<and> key_build_id k0 = None
   \<and> wrapped_key_checks example_handler () (Some (''k0'', ''s0''))
        (api_request (Some (''k0'', ''s0'')) (Some 5)) store0
      = Inl (HTTPException 403)
   \<and> api_key_required example_handler () (api_request (Some (''k0'', ''s0'')) (Some 5)) store0
      \<noteq> Inr (Invokes (example_handler ()))"
  by (simp add: api_key_required_def wrapped_raises_NameError wrapped_key_checks_def
        api_request_def api_key_query_get_def build_query_get_def store0_def k1_def k0_def
        build5_def build6_def)

text \<open>
  C7, amended: in the scope check of lines 235 to 250, a key with valid credentials
  whose build id is empty is free of the build restriction only when it is a superuser
  key; a non-superuser key with no build id is refused with 403 whatever \<open>build_id\<close>
  parameter the request carries, present or not.
\<close>

theorem null_build_id_key_scope:
  assumes "api_key_query_get st username = Some k" and "active k" and "secret k = password"
    and "key_build_id k = None"
  shows "wrapped_key_checks f a (Some (username, password)) req st =
           (if superuser k then Inr (Invokes (f a)) else Inl (HTTPException 403))"
  using assms by (cases "form_get_int req ''build_id''") (simp_all add: wrapped_key_checks_def)

theorem null_build_id_key_scope_witness:
  "wrapped_key_checks example_handler () (Some (''k0'', ''s0''))
       (api_request (Some (''k0'', ''s0'')) None) store0
     = Inl (HTTPException 403)
   \<and> wrapped_key_checks example_handler () (Some (''k0'', ''s0''))
       (api_request (Some (''k0'', ''s0'')) (Some 6))
       (store0\<lparr>api_keys := [k0\<lparr>superuser := True\<rparr>]\<rparr>)
     = Inr (Invokes (example_handler ()))"
proof -
  have plain: "api_key_query_get store0 ''k0'' = Some k0" "active k0" "secret k0 = ''s0''"
    "key_build_id k0 = None" "\<not> superuser k0"
    by (simp_all add: api_key_query_get_def store0_def k1_def k0_def)
  let ?k = "k0\<lparr>superuser := True\<rparr>"
  have super: "api_key_query_get (store0\<lparr>api_keys := [?k]\<rparr>) ''k0'' = Some ?k" "active ?k"
    "secret ?k = ''s0''" "key_build_id ?k = None" "superuser ?k"
    by (simp_all add: api_key_query_get_def k0_def)
  show ?thesis
    using null_build_id_key_scope [OF plain(1-4), of example_handler "()"
            "api_request (Some (''k0'', ''s0'')) None"]
      null_build_id_key_scope [OF super(1-4), of example_handler "()"
            "api_request (Some (''k0'', ''s0'')) (Some 6)"]
      plain(5) super(5)
    by simp
qed

text \<open>
  C8: once a key is revoked, the guard should answer 403 to every request under it.
  Revoking \<open>k1\<close> deactivates it, and lines 225 to 227 then abort with 403 even under the
  right secret; the guard as written leaves by the \<open>NameError\<close> of line 214 before them.
\<close>

theorem api_key_required_revoked_key:
  "revoke_api_key build5 revoke_k1 store0
     = Inr (RedirectManageApiKeys 5, deactivate k1 store0)
   \<and> wrapped_key_checks example_handler () (Some (''k1'', ''s1''))
       (api_request (Some (''k1'', ''s1'')) (Some 5)) (deactivate k1 store0)
     = Inl (HTTPException 403)
   \<and> api_key_required example_handler () (api_request (Some (''k1'', ''s1'')) (Some 5))
       (deactivate k1 store0)
     = Inl (NameError ''auth'')"
  by (simp add: api_key_required_def wrapped_raises_NameError wrapped_key_checks_def
        revoke_api_key_def revoke_k1_def deactivate_def api_request_def api_key_query_get_def
        store0_def k1_def k0_def build5_def build6_def)

section \<open>First login and later logins\<close>

text \<open>
  C9: two callbacks in sequence for the same external identity. Both exchanges of the
  first callback succeed and the profile carries an id and an email; the second callback
  succeeds with the same id, whatever email it carries, if any. Then both calls log in
  the same user row, whose id is the provider-qualified id; the second call leaves the
  database as the first left it, so the stored email address is the one first written;
  and the number of rows with that id is what it was before, or one if there was none.
\<close>

theorem login_auth_twice:
  assumes "fetch_token (args_get req ''code'') = Inr td"
    and "td ''access_token'' = Some tok"
    and "fetch_userinfo tok = Inr rd"
    and "rd ''id'' = Some ident"
    and "rd ''email'' = Some email"
    and "fetch_token' (args_get req' ''code'') = Inr td'"
    and "td' ''access_token'' = Some tok'"
    and "fetch_userinfo' tok' = Inr rd'"
    and "rd' ''id'' = Some ident"
  shows "\<exists>u st1.
           login_auth G fetch_token fetch_userinfo req st
             = Inr (Redirect (args_get req ''state''), st1, LoggedIn u)
         \<and> login_auth G fetch_token' fetch_userinfo' req' st1
             = Inr (Redirect (args_get req' ''state''), st1, LoggedIn u)
         \<and> user_id u = G @ '':'' @ ident
         \<and> user_query_get st1 (user_id u) = Some u
         \<and> length (filter (\<lambda>v. user_id v = user_id u) (users st1))
             = max 1 (length (filter (\<lambda>v. user_id v = user_id u) (users st)))"
proof (cases "user_query_get st (G @ '':'' @ ident)")
  case None
  let ?uid = "G @ '':'' @ ident"
  let ?u = "\<lparr>user_id = ?uid, email_address = email\<rparr>"
  let ?st1 = "st\<lparr>users := users st @ [?u]\<rparr>"
  have none: "find (\<lambda>v. user_id v = ?uid) (users st) = None"
    using None by (simp add: user_query_get_def)
  have first: "login_auth G fetch_token fetch_userinfo req st
                 = Inr (Redirect (args_get req ''state''), ?st1, LoggedIn ?u)"
    using assms(1-5) None by (simp add: login_auth_def Let_def)
  have got: "user_query_get ?st1 ?uid = Some ?u"
    using find_append_new [OF none, of ?u] by (simp add: user_query_get_def)
  have second: "login_auth G fetch_token' fetch_userinfo' req' ?st1
                  = Inr (Redirect (args_get req' ''state''), ?st1, LoggedIn ?u)"
    using assms(6-9) got by (simp add: login_auth_def Let_def)
  have count: "length (filter (\<lambda>v. user_id v = ?uid) (users ?st1))
                 = max 1 (length (filter (\<lambda>v. user_id v = ?uid) (users st)))"
    using filter_none_of_find [OF none] by simp
  show ?thesis
    using first second got count by (intro exI [of _ ?u] exI [of _ ?st1]) simp
next
  case (Some u)
  let ?uid = "G @ '':'' @ ident"
  have found: "find (\<lambda>v. user_id v = ?uid) (users st) = Some u"
    using Some by (simp add: user_query_get_def)
  have uid: "user_id u = ?uid"
    using find_Some_holds [OF found] .
  have first: "login_auth G fetch_token fetch_userinfo req st
                 = Inr (Redirect (args_get req ''state''), st, LoggedIn u)"
    using assms(1-4) Some by (simp add: login_auth_def Let_def)
  have second: "login_auth G fetch_token' fetch_userinfo' req' st
                  = Inr (Redirect (args_get req' ''state''), st, LoggedIn u)"
    using assms(6-9) Some by (simp add: login_auth_def Let_def)
  have count: "length (filter (\<lambda>v. user_id v = ?uid) (users st))
                 = max 1 (length (filter (\<lambda>v. user_id v = ?uid) (users st)))"
    using filter_some_of_find [OF found] by simp
  show ?thesis
    using first second Some uid count by (intro exI [of _ u] exI [of _ st]) simp
qed

theorem login_auth_twice_witness:
  "\<exists>u st1.
     login_auth ''google_oauth2'' token_reply (userinfo_reply ''first@example.com'')
         (browser_request ''GET'' 5) store0
       = Inr (Redirect (args_get (browser_request ''GET'' 5) ''state''), st1, LoggedIn u)
   \<and> login_auth ''google_oauth2'' token_reply (userinfo_reply ''second@example.com'')
         (browser_request ''GET'' 6) st1
       = Inr (Redirect (args_get (browser_request ''GET'' 6) ''state''), st1, LoggedIn u)
   \<and> user_id u = ''google_oauth2'' @ '':'' @ ''3''
   \<and> user_query_get st1 (user_id u) = Some u
   \<and> length (filter (\<lambda>v. user_id v = user_id u) (users st1))
       = max 1 (length (filter (\<lambda>v. user_id v = user_id u) (users store0)))"
  by (rule login_auth_twice
       [where td = token_dict and tok = "''t0''" and rd = "userinfo_dict ''first@example.com''"
          and ident = "''3''" and email = "''first@example.com''"
          and td' = token_dict and tok' = "''t0''"
          and rd' = "userinfo_dict ''second@example.com''"])
     (simp_all add: token_reply_def userinfo_reply_def token_dict_def userinfo_dict_def)

section \<open>Revoking a key that is not stored\<close>

text \<open>
  C10: \<open>revoke_api_key\<close> reads \<open>api_key.build_id\<close> without testing the lookup. For a
  validated form, the handler leaves by the \<open>AttributeError\<close> of that read exactly when
  the submitted key id names no stored key: an absent key gives neither a 403 nor a 404,
  and a stored key never gives the error.
\<close>

theorem revoke_absent_key:
  assumes "validate_on_submit form"
  shows "(revoke_api_key b form st = Inl (AttributeError ''build_id''))
           = (api_key_query_get st (id_data form) = None)"
  using assms by (simp add: revoke_api_key_def split: option.splits)

theorem revoke_absent_key_witness:
  "revoke_api_key build5 revoke_unknown store0 = Inl (AttributeError ''build_id'')
   \<and> revoke_api_key build5 revoke_k1 store0 \<noteq> Inl (AttributeError ''build_id'')"
  using revoke_absent_key [of revoke_unknown build5 store0]
    revoke_absent_key [of revoke_k1 build5 store0]
  by (simp add: revoke_unknown_def revoke_k1_def api_key_query_get_def store0_def k1_def k0_def)

end
